theory Spec2Isabelle
  imports Complex_Main "HOL-Library.Sublist"
begin

section \<open>JavaScript values as the handlers see them\<close>

text \<open>
  A JavaScript string is modelled as a \<^typ>\<open>string\<close>: a list of code units below 256.
  A request body that \<^verbatim>\<open>req.json()\<close> has parsed is a JSON value. A number carries the
  text that \<^verbatim>\<open>Number.prototype.toString\<close> prints for it (JSON numbers are finite, and
  both zeros print \<^verbatim>\<open>0\<close>); an object carries its own properties.
\<close>

datatype json =
    JNull
  | JBool bool
  | JNum string
  | JStr string
  | JArr "json list"
  | JObj "(string \<times> json) list"

text \<open>
  A thrown value is known by its \<^verbatim>\<open>message\<close> property, which is all the handlers read
  of it (\<^verbatim>\<open>err?.message ?? ...\<close>); \<^term>\<open>None\<close> when it is undefined or null.
\<close>

datatype thrown = Thrown "string option"

text \<open>
  \<^verbatim>\<open>v?.k\<close> for the property names the handlers read (\<^verbatim>\<open>prompt\<close>, \<^verbatim>\<open>history\<close>,
  \<^verbatim>\<open>role\<close>, \<^verbatim>\<open>content\<close>, \<^verbatim>\<open>token\<close>): none of them is defined on a string, a
  number, a boolean or an array, so only an object can answer; \<^term>\<open>None\<close> is
  \<^verbatim>\<open>undefined\<close>.
\<close>

fun get_prop :: "json \<Rightarrow> string \<Rightarrow> json option" where
  "get_prop (JObj kvs) k = map_of kvs k"
| "get_prop _ k = None"

text \<open>\<^verbatim>\<open>v ?? d\<close>: the default replaces \<^verbatim>\<open>undefined\<close> and \<^verbatim>\<open>null\<close> only.\<close>

fun nullish :: "json option \<Rightarrow> json \<Rightarrow> json" where
  "nullish None d = d"
| "nullish (Some JNull) d = d"
| "nullish (Some v) d = v"

text \<open>
  \<^verbatim>\<open>String(v)\<close>. An array prints its elements joined by commas, a null element as the
  empty string. An object prints \<^verbatim>\<open>[object Object]\<close> through
  \<^verbatim>\<open>Object.prototype.toString\<close>, unless it has an own property \<^verbatim>\<open>toString\<close>: a JSON
  value is never callable, \<^verbatim>\<open>valueOf\<close> never yields a primitive, and the conversion
  throws a TypeError.
\<close>

fun unprintable :: "json \<Rightarrow> bool" where
  "unprintable (JArr xs) = list_ex unprintable xs"
| "unprintable (JObj kvs) = (map_of kvs ''toString'' \<noteq> None)"
| "unprintable _ = False"

fun join :: "string \<Rightarrow> string list \<Rightarrow> string" where
  "join sep [] = []"
| "join sep [x] = x"
| "join sep (x # y # ys) = x @ sep @ join sep (y # ys)"

fun to_str :: "json \<Rightarrow> string" where
  "to_str JNull = ''null''"
| "to_str (JBool b) = (if b then ''true'' else ''false'')"
| "to_str (JNum n) = n"
| "to_str (JStr s) = s"
| "to_str (JArr xs) = join '','' (map (\<lambda>x. if x = JNull then [] else to_str x) xs)"
| "to_str (JObj kvs) = ''[object Object]''"

definition js_String :: "json \<Rightarrow> thrown + string" where
  "js_String v =
     (if unprintable v then Inl (Thrown (Some ''Cannot convert object to primitive value''))
      else Inr (to_str v))"

text \<open>
  \<^verbatim>\<open>s.trim()\<close> removes white space and line terminators at both ends; below code unit
  256 these are tab, line feed, vertical tab, form feed, carriage return, space and the
  no-break space.
\<close>

definition is_ws :: "char \<Rightarrow> bool" where
  "is_ws c = (c \<in> set [CHR 0x09, CHR 0x0A, CHR 0x0B, CHR 0x0C, CHR 0x0D, CHR 0x20, CHR 0xA0])"

definition trim :: "string \<Rightarrow> string" where
  "trim s = rev (dropWhile is_ws (rev (dropWhile is_ws s)))"

section \<open>The two generative endpoints\<close>

subsection \<open>Persona and data\<close>

definition SYSTEM_PREAMBLE :: string where
  \<open>SYSTEM_PREAMBLE =
     ''You are "Microchip", the AI assistant for AISoc (Artificial Intelligence Society).\<newline>'' @
     ''Microchip characteristics:\<newline>'' @
     ''- Tone: friendly, practical, upbeat; concise by default.\<newline>'' @
     ''- Style: clear structure, bullet points when useful, examples when helpful.\<newline>'' @
     ''- Behavior: ask one brief clarifying question if the user's intent is ambiguous.\<newline>'' @
     ''- Safety: avoid speculation; cite assumptions; do not disclose private keys or internal credentials.\<newline>'' @
     ''- Identity: you are part of AISoc; you can say "we" for AISoc initiatives.\<newline>'' @
     ''Formatting:\<newline>'' @
     ''- Use short paragraphs and bullets. Keep code minimal and runnable.\<newline>''\<close>

datatype Role = User | Assistant

record Msg =
  role :: Role
  content :: string

text \<open>
  One element of the backend's \<^verbatim>\<open>contents\<close> array, \<^verbatim>\<open>{ role, parts: [{ text }] }\<close>; a
  part is represented by its text.
\<close>

datatype speaker = GUser | GModel

record turn =
  speaker :: speaker
  parts :: "string list"

text \<open>
  What the handler returns: \<^verbatim>\<open>NextResponse.json(v, { status })\<close>,
  \<^verbatim>\<open>new NextResponse(text, { status })\<close>, or the event stream, given by the chunks
  enqueued on its controller (status 200).
\<close>

datatype response =
    JsonResponse nat json
  | TextResponse nat string
  | StreamResponse "(string \<times> string) list" "string list"

subsection \<open>Narrowing the history and building the contents\<close>

text \<open>
  The callback of \<^verbatim>\<open>historyUnsafe.map\<close>: the role is kept when it is one of the two valid
  strings and is \<^verbatim>\<open>"user"\<close> otherwise; the content is \<^verbatim>\<open>String(m?.content ?? "")\<close>.
\<close>

definition narrow_entry :: "json \<Rightarrow> thrown + Msg" where
  "narrow_entry m =
     (let r = (if get_prop m ''role'' = Some (JStr ''user'') \<or> get_prop m ''role'' = Some (JStr ''assistant'')
               then (if get_prop m ''role'' = Some (JStr ''user'') then User else Assistant)
               else User)
      in case js_String (nullish (get_prop m ''content'') (JStr '''')) of
           Inl e \<Rightarrow> Inl e
         | Inr c \<Rightarrow> Inr \<lparr>role = r, content = c\<rparr>)"

fun map_entries :: "json list \<Rightarrow> thrown + Msg list" where
  "map_entries [] = Inr []"
| "map_entries (m # ms) =
     (case narrow_entry m of
        Inl e \<Rightarrow> Inl e
      | Inr x \<Rightarrow> (case map_entries ms of Inl e \<Rightarrow> Inl e | Inr xs \<Rightarrow> Inr (x # xs)))"

text \<open>
  \<^verbatim>\<open>historyUnsafe.map(...).filter(...)\<close>: only an array has \<^verbatim>\<open>map\<close>; on any other value
  the call throws a TypeError.
\<close>

definition narrow_history :: "json \<Rightarrow> thrown + Msg list" where
  "narrow_history h =
     (case h of
        JArr ms \<Rightarrow>
          (case map_entries ms of
             Inl e \<Rightarrow> Inl e
           | Inr xs \<Rightarrow> Inr (filter (\<lambda>m. length (trim (content m)) > 0) xs))
      | _ \<Rightarrow> Inl (Thrown (Some ''historyUnsafe.map is not a function'')))"

text \<open>The \<^verbatim>\<open>for (const m of history) contents.push(...)\<close> loop.\<close>

fun push_history :: "Msg list \<Rightarrow> turn list \<Rightarrow> turn list" where
  "push_history [] contents = contents"
| "push_history (m # ms) contents =
     push_history ms
       (contents @ [\<lparr>speaker = (if role m = User then GUser else GModel), parts = [content m]\<rparr>])"

definition build_contents :: "Msg list \<Rightarrow> string \<Rightarrow> turn list" where
  "build_contents history prompt =
     (let contents = [];
          contents = contents @ [\<lparr>speaker = GUser, parts = [SYSTEM_PREAMBLE]\<rparr>];
          contents = push_history history contents
      in contents @ [\<lparr>speaker = GUser, parts = [prompt]\<rparr>])"

text \<open>
  Everything between the credential check and the backend call, which both handlers
  write out in the same words: the prompt, the narrowed history, the contents.
\<close>

definition prepare :: "json \<Rightarrow> thrown + turn list" where
  "prepare body =
     (case js_String (nullish (get_prop body ''prompt'') (JStr '''')) of
        Inl e \<Rightarrow> Inl e
      | Inr prompt \<Rightarrow>
          (case narrow_history (nullish (get_prop body ''history'') (JArr [])) of
             Inl e \<Rightarrow> Inl e
           | Inr history \<Rightarrow> Inr (build_contents history prompt)))"

subsection \<open>The one-shot handler\<close>

text \<open>
  The backend's answer, one constructor for each level that
  \<^verbatim>\<open>result.response?.candidates?.[0]?.content?.parts?.[0]?.text\<close> walks through.
\<close>

datatype part = Part "string option"
datatype gcontent = Content "part list option"
datatype candidate = Candidate "gcontent option"
datatype gen_response = Response "candidate list option"
datatype gen_result = Result "gen_response option"

fun response_of :: "gen_result \<Rightarrow> gen_response option" where
  "response_of (Result r) = r"

fun candidates_of :: "gen_response \<Rightarrow> candidate list option" where
  "candidates_of (Response cs) = cs"

fun content_of :: "candidate \<Rightarrow> gcontent option" where
  "content_of (Candidate c) = c"

fun parts_of :: "gcontent \<Rightarrow> part list option" where
  "parts_of (Content ps) = ps"

fun text_of :: "part \<Rightarrow> string option" where
  "text_of (Part t) = t"

text \<open>\<^verbatim>\<open>xs?.[0]\<close> on an array: undefined when the array is empty.\<close>

fun index0 :: "'a list \<Rightarrow> 'a option" where
  "index0 [] = None"
| "index0 (x # xs) = Some x"

definition first_text :: "gen_result \<Rightarrow> string option" where
  "first_text result =
     Option.bind (Option.bind (Option.bind (Option.bind (Option.bind
       (response_of result) candidates_of) index0) content_of) parts_of)
       (\<lambda>ps. Option.bind (index0 ps) text_of)"

text \<open>\<^verbatim>\<open>!process.env.GOOGLE_API_KEY\<close>: the variable is unset or empty.\<close>

definition missing_key :: "string option \<Rightarrow> bool" where
  "missing_key key = (case key of None \<Rightarrow> True | Some k \<Rightarrow> k = [])"

definition message_or :: "thrown \<Rightarrow> string \<Rightarrow> string" where
  "message_or e d = (case e of Thrown None \<Rightarrow> d | Thrown (Some m) \<Rightarrow> m)"

definition catch_json :: "thrown \<Rightarrow> response" where
  "catch_json err = JsonResponse 500 (JObj [(''error'', JStr (message_or err ''Server error''))])"

text \<open>
  \<^verbatim>\<open>POST\<close> of \<^verbatim>\<open>api/chat/route.ts\<close>. The arguments are the environment variable, what
  \<^verbatim>\<open>await req.json()\<close> gives (it rejects on a body that is not JSON) and the backend's
  \<^verbatim>\<open>generateContent\<close>. The result is the response together with the contents of every
  backend call made, in order.
\<close>

definition POST_chat ::
  "string option \<Rightarrow> thrown + json \<Rightarrow> (turn list \<Rightarrow> thrown + gen_result) \<Rightarrow> response \<times> turn list list" where
  "POST_chat key req generateContent =
     (case req of
        Inl err \<Rightarrow> (catch_json err, [])
      | Inr body \<Rightarrow>
          if missing_key key
          then (JsonResponse 500 (JObj [(''error'', JStr ''Missing GOOGLE_API_KEY'')]), [])
          else
            (case prepare body of
               Inl err \<Rightarrow> (catch_json err, [])
             | Inr contents \<Rightarrow>
                 (case generateContent contents of
                    Inl err \<Rightarrow> (catch_json err, [contents])
                  | Inr result \<Rightarrow>
                      (JsonResponse 200
                         (JObj [(''reply'', JStr (case first_text result of None \<Rightarrow> ''...'' | Some t \<Rightarrow> t))]),
                       [contents]))))"

subsection \<open>The streaming handler\<close>

text \<open>
  \<^verbatim>\<open>JSON.stringify\<close> of a string: the quotation mark, the backslash and the control
  characters are escaped (the short escapes where JSON has one, \<^verbatim>\<open>\u00xx\<close> in lower-case
  hexadecimal otherwise), every other code unit is copied.
\<close>

definition hex_digit :: "nat \<Rightarrow> char" where
  "hex_digit n = ''0123456789abcdef'' ! n"

definition quote_char :: "char \<Rightarrow> string" where
  "quote_char c =
     (if c = CHR 0x22 then [CHR 0x5C, CHR 0x22]
      else if c = CHR 0x5C then [CHR 0x5C, CHR 0x5C]
      else if c = CHR 0x08 then [CHR 0x5C, CHR ''b'']
      else if c = CHR 0x0C then [CHR 0x5C, CHR ''f'']
      else if c = CHR 0x0A then [CHR 0x5C, CHR ''n'']
      else if c = CHR 0x0D then [CHR 0x5C, CHR ''r'']
      else if c = CHR 0x09 then [CHR 0x5C, CHR ''t'']
      else if (of_char c :: nat) < 32
        then [CHR 0x5C, CHR ''u'', CHR ''0'', CHR ''0'',
              hex_digit ((of_char c :: nat) div 16), hex_digit ((of_char c :: nat) mod 16)]
      else [c])"

definition quote :: "string \<Rightarrow> string" where
  "quote s = [CHR 0x22] @ concat (map quote_char s) @ [CHR 0x22]"

text \<open>\<^verbatim>\<open>JSON.stringify({ token: text })\<close> and \<^verbatim>\<open>JSON.stringify({ error: message })\<close>.\<close>

definition stringify_token :: "string \<Rightarrow> string" where
  \<open>stringify_token t = ''{"token":'' @ quote t @ ''}''\<close>

definition stringify_error :: "string \<Rightarrow> string" where
  \<open>stringify_error m = ''{"error":'' @ quote m @ ''}''\<close>

text \<open>
  One turn of \<^verbatim>\<open>for await (const chunk of response.stream)\<close>: the backend hands over a
  chunk whose \<^verbatim>\<open>text()\<close> is given, or the iteration (or \<^verbatim>\<open>text()\<close>) throws. A
  backend stream is the finite list of these; the end of the list is its normal end.
\<close>

datatype step = Text string | Throw thrown

text \<open>The stream's controller: what has been enqueued, in order, and whether it is closed.\<close>

record controller =
  queue :: "string list"
  closed :: bool

definition enqueue :: "controller \<Rightarrow> string \<Rightarrow> controller" where
  "enqueue c chunk = c\<lparr>queue := queue c @ [chunk]\<rparr>"

definition close :: "controller \<Rightarrow> controller" where
  "close c = c\<lparr>closed := True\<rparr>"

definition send :: "controller \<Rightarrow> string \<Rightarrow> controller" where
  "send c d = enqueue c (''data: '' @ d @ ''\<newline>\<newline>'')"

text \<open>
  The loop inside \<^verbatim>\<open>try\<close>: it ends normally or with the value thrown, and what it has
  enqueued by then stays enqueued.
\<close>

fun for_await :: "step list \<Rightarrow> controller \<Rightarrow> thrown option \<times> controller" where
  "for_await [] c = (None, c)"
| "for_await (Throw e # rest) c = (Some e, c)"
| "for_await (Text t # rest) c =
     for_await rest (if t \<noteq> [] then send c (stringify_token t) else c)"

definition start :: "step list \<Rightarrow> controller \<Rightarrow> controller" where
  "start stream controller =
     (case for_await stream controller of
        (None, c) \<Rightarrow> close (enqueue c ''event: done\<newline>data: [DONE]\<newline>\<newline>'')
      | (Some e, c) \<Rightarrow>
          close (enqueue c
            (''event: error\<newline>data: '' @ stringify_error (message_or e ''stream error'')
              @ ''\<newline>\<newline>'')))"

definition stream_headers :: "(string \<times> string) list" where
  "stream_headers =
     [(''Content-Type'', ''text/event-stream; charset=utf-8''),
      (''Cache-Control'', ''no-cache, no-transform''),
      (''Connection'', ''keep-alive''),
      (''Transfer-Encoding'', ''chunked'')]"

definition catch_text :: "thrown \<Rightarrow> response" where
  "catch_text err = TextResponse 500 (message_or err ''Server error'')"

text \<open>
  \<^verbatim>\<open>POST\<close> of \<^verbatim>\<open>api/chat/stream/route.ts\<close>, with the backend's
  \<^verbatim>\<open>generateContentStream\<close> as its third argument.
\<close>

definition POST_stream ::
  "string option \<Rightarrow> thrown + json \<Rightarrow> (turn list \<Rightarrow> thrown + step list) \<Rightarrow> response \<times> turn list list" where
  "POST_stream key req generateContentStream =
     (case req of
        Inl err \<Rightarrow> (catch_text err, [])
      | Inr body \<Rightarrow>
          if missing_key key
          then (TextResponse 500 ''Missing GOOGLE_API_KEY'', [])
          else
            (case prepare body of
               Inl err \<Rightarrow> (catch_text err, [])
             | Inr contents \<Rightarrow>
                 (case generateContentStream contents of
                    Inl err \<Rightarrow> (catch_text err, [contents])
                  | Inr stream \<Rightarrow>
                      (StreamResponse stream_headers
                         (queue (start stream \<lparr>queue = [], closed = False\<rparr>)),
                       [contents]))))"

section \<open>The chat page\<close>

text \<open>
  The React state \<^verbatim>\<open>messages\<close> is a list of \<^typ>\<open>Msg\<close>. A call
  \<^verbatim>\<open>setMessages(f)\<close> applies \<^verbatim>\<open>f\<close> to the latest value, in the order of the calls.
\<close>

record payload =
  history :: "Msg list"
  prompt :: string

definition buildPayload :: "Msg list \<Rightarrow> string \<Rightarrow> payload" where
  "buildPayload messages p =
     \<lparr>history = map (\<lambda>m. \<lparr>role = role m, content = content m\<rparr>) messages, prompt = p\<rparr>"

text \<open>
  \<^verbatim>\<open>fetch("/api/chat", ...)\<close>: it rejects, or gives a response with its \<^verbatim>\<open>ok\<close> flag
  and what \<^verbatim>\<open>res.json()\<close> gives, read at the type the source declares for it: the
  \<^verbatim>\<open>reply\<close> field when there is one.
\<close>

datatype chat_fetch = ChatRejects thrown | ChatResponse bool "thrown + string option"

text \<open>
  \<^verbatim>\<open>fetch("/api/chat/stream", ...)\<close>: it rejects, or gives a response with its \<^verbatim>\<open>ok\<close>
  flag and its body, if any. A body is the decoded chunks that \<^verbatim>\<open>reader.read()\<close> yields,
  in order, and then either \<^verbatim>\<open>done\<close> or a rejected read.
\<close>

datatype ending = Done | ReadRejects thrown

datatype stream_fetch =
    StreamRejects thrown
  | StreamFetched bool "(string list \<times> ending) option"

text \<open>
  What the page runs in: both halves of the network, \<^verbatim>\<open>JSON.parse\<close> (\<^term>\<open>None\<close>: a
  SyntaxError), and React's timing: whether it renders after the read numbered \<open>k\<close> of a
  stream body (from 0), while the next \<^verbatim>\<open>reader.read()\<close> is awaited.
\<close>

record net =
  fetch_chat :: "payload \<Rightarrow> chat_fetch"
  fetch_stream :: "payload \<Rightarrow> stream_fetch"
  JSON_parse :: "string \<Rightarrow> json option"
  renders :: "nat \<Rightarrow> bool"

text \<open>
  \<^verbatim>\<open>sendNonStreaming\<close>, from the \<^verbatim>\<open>messages\<close> of the render that called it and the
  latest state: whether it threw, and the state it leaves.
\<close>

definition sendNonStreaming :: "net \<Rightarrow> Msg list \<Rightarrow> string \<Rightarrow> Msg list \<Rightarrow> bool \<times> Msg list" where
  "sendNonStreaming n messages p state =
     (let payload = buildPayload messages p in
      case fetch_chat n payload of
        ChatRejects e \<Rightarrow> (True, state)
      | ChatResponse ok body \<Rightarrow>
          if \<not> ok then (True, state)
          else
            (case body of
               Inl e \<Rightarrow> (True, state)
             | Inr data \<Rightarrow>
                 (let reply = (case data of None \<Rightarrow> ''...'' | Some r \<Rightarrow> r)
                  in (False, state @ [\<lparr>role = Assistant, content = reply\<rparr>]))))"

text \<open>\<^verbatim>\<open>s.split("\n")\<close>.\<close>

fun split_lines :: "string \<Rightarrow> string list" where
  "split_lines [] = [[]]"
| "split_lines (c # cs) =
     (if c = CHR 0x0A then [] # split_lines cs
      else (case split_lines cs of [] \<Rightarrow> [[c]] | l # ls \<Rightarrow> (c # l) # ls))"

text \<open>Truthiness of a parsed value (\<^verbatim>\<open>if (obj.token)\<close>).\<close>

fun truthy :: "json \<Rightarrow> bool" where
  "truthy JNull = False"
| "truthy (JBool b) = b"
| "truthy (JNum n) = (n \<noteq> ''0'')"
| "truthy (JStr s) = (s \<noteq> [])"
| "truthy (JArr xs) = True"
| "truthy (JObj kvs) = True"

text \<open>
  The updater of the streaming loop: a copy of the array with the content of its last
  element replaced by \<^verbatim>\<open>assistantText\<close>. The updater closes over that variable, which the
  loop keeps assigning, so the text it writes is the variable's value when React runs the
  updater: the first argument here. On an empty array the assignment \<^verbatim>\<open>next[-1] = ...\<close>
  adds no element.
\<close>

definition update_last :: "string \<Rightarrow> Msg list \<Rightarrow> Msg list" where
  "update_last assistantText prev =
     (let next = prev; lastIdx = int (length next) - 1
      in if lastIdx < 0 then next
         else next[nat lastIdx := (next ! nat lastIdx)\<lparr>content := assistantText\<rparr>])"

text \<open>
  The state of a running \<^verbatim>\<open>sendStreaming\<close>: the variable \<^verbatim>\<open>assistantText\<close>, the values
  that \<^verbatim>\<open>messages\<close> has taken in React's renders so far (the latest last), and the updaters
  that \<^verbatim>\<open>setMessages\<close> has queued since the last render.
\<close>

record streaming =
  assistantText :: string
  shown :: "Msg list list"
  pending :: "(string \<Rightarrow> Msg list \<Rightarrow> Msg list) list"

text \<open>
  A render: React runs the queued updaters in order on the latest value of \<^verbatim>\<open>messages\<close>,
  each reading \<^verbatim>\<open>assistantText\<close> as it is by then, and \<^verbatim>\<open>messages\<close> takes the result.
  Nothing is queued: no render. (React may run the first updater of a batch when it is
  queued; every updater of the loop writes the same field, so the last one decides what is
  rendered, and that one has the variable's final value either way.)
\<close>

definition render :: "streaming \<Rightarrow> streaming" where
  "render st =
     (if pending st = [] then st
      else st\<lparr>shown := shown st @ [fold (\<lambda>updater prev. updater (assistantText st) prev)
                                        (pending st) (last (shown st))],
              pending := []\<rparr>)"

text \<open>
  The body of \<^verbatim>\<open>for (const line of lines)\<close>, which runs without a render in between: a
  token is appended to \<^verbatim>\<open>assistantText\<close> and one more updater is queued. Inside \<^verbatim>\<open>try\<close>, a
  payload that does not parse, \<^verbatim>\<open>obj.token\<close> on null and a token that cannot be converted
  to a string all throw, and \<^verbatim>\<open>catch\<close> ignores it.
\<close>

definition on_line :: "(string \<Rightarrow> json option) \<Rightarrow> string \<Rightarrow> streaming \<Rightarrow> streaming" where
  "on_line parse line st =
     (let trimmed = trim line in
      if trimmed = [] then st
      else if take 6 trimmed = ''data: '' then
        (let payload = drop 6 trimmed in
         if payload = ''[DONE]'' then st
         else
           (case parse payload of
              None \<Rightarrow> st
            | Some JNull \<Rightarrow> st
            | Some obj \<Rightarrow>
                (case get_prop obj ''token'' of
                   None \<Rightarrow> st
                 | Some token \<Rightarrow>
                     if truthy token then
                       (case js_String token of
                          Inl e \<Rightarrow> st
                        | Inr t \<Rightarrow>
                            st\<lparr>assistantText := assistantText st @ t,
                               pending := pending st @ [update_last]\<rparr>)
                     else st)))
      else st)"

text \<open>
  The \<^verbatim>\<open>for (;;)\<close> loop from the read numbered \<open>k\<close> on, up to the last chunk: the lines of a
  chunk are handled, and React renders or not before the next read comes.
\<close>

fun read_loop :: "(string \<Rightarrow> json option) \<Rightarrow> (nat \<Rightarrow> bool) \<Rightarrow> nat \<Rightarrow> string list \<Rightarrow> streaming \<Rightarrow> streaming" where
  "read_loop parse rendering k [] st = st"
| "read_loop parse rendering k (chunk # rest) st =
     (let st = fold (on_line parse) (split_lines chunk) st;
          st = (if rendering k then render st else st)
      in read_loop parse rendering (Suc k) rest st)"

text \<open>
  \<^verbatim>\<open>sendStreaming\<close>: whether it threw, and the values \<^verbatim>\<open>messages\<close> has taken since the
  call, starting with the latest state before it. What is still queued when the loop ends
  is rendered then.
\<close>

definition sendStreaming :: "net \<Rightarrow> Msg list \<Rightarrow> string \<Rightarrow> Msg list \<Rightarrow> bool \<times> Msg list list" where
  "sendStreaming n messages p state =
     (let payload = buildPayload messages p;
          states = [state, state @ [\<lparr>role = Assistant, content = []\<rparr>]]
      in case fetch_stream n payload of
           StreamRejects e \<Rightarrow> (True, states)
         | StreamFetched ok body \<Rightarrow>
             if \<not> ok \<or> body = None then (True, states)
             else
               (case body of
                  None \<Rightarrow> (True, states)
                | Some (chunks, fin) \<Rightarrow>
                    (let st = read_loop (JSON_parse n) (renders n) 0 chunks
                                \<lparr>assistantText = [], shown = states, pending = []\<rparr>;
                         st = render st
                     in (case fin of Done \<Rightarrow> (False, shown st) | ReadRejects e \<Rightarrow> (True, shown st)))))"

record ui =
  messages :: "Msg list"
  input :: string
  useStreaming :: bool
  isLoading :: bool

definition fallback :: Msg where
  "fallback = \<lparr>role = Assistant, content = ''Sorry, something went wrong. Please try again in a moment.''\<rparr>"

text \<open>
  \<^verbatim>\<open>onSend\<close>, from the state of the render that called it to the state it leaves. The
  payload is built from the \<^verbatim>\<open>messages\<close> of that render, which do not hold the new user
  message yet; the updaters of the send functions work on the latest state, which does.
\<close>

definition onSend :: "net \<Rightarrow> ui \<Rightarrow> ui" where
  "onSend n s =
     (let p = trim (input s) in
      if p = [] \<or> isLoading s then s
      else
        (let s1 = s\<lparr>input := []\<rparr>;
             nextMessages = messages s @ [\<lparr>role = User, content = p\<rparr>];
             s2 = s1\<lparr>messages := nextMessages\<rparr>;
             s3 = s2\<lparr>isLoading := True\<rparr>;
             (threw, state) =
               (if useStreaming s
                then (let (t, states) = sendStreaming n (messages s) p (messages s3) in (t, last states))
                else sendNonStreaming n (messages s) p (messages s3));
             s4 = s3\<lparr>messages := (if threw then state @ [fallback] else state)\<rparr>
         in s4\<lparr>isLoading := False\<rparr>))"

text \<open>What a bubble shows: \<^verbatim>\<open>props.content || "Thinking..."\<close>.\<close>

definition Bubble :: "Msg \<Rightarrow> string" where
  "Bubble m = (if content m = [] then ''Thinking...'' else content m)"

section \<open>The local-model endpoint\<close>

datatype alt_role = AUser | ASystem

record Message =
  msg_role :: alt_role
  msg_content :: string

record ChatRequest =
  req_messages :: "Message list"
  system_prompt :: "string option"
  model :: "string option"
  temperature :: "rat option"

text \<open>The request sent to the local server: its address and the fields of its body.\<close>

record outbound =
  url :: string
  out_model :: string
  out_messages :: "Message list"
  out_stream :: bool
  out_temperature :: rat

text \<open>
  The handler up to its \<^verbatim>\<open>fetch\<close>. The conditional and both \<^verbatim>\<open>||\<close> test truthiness: an
  empty string and the number 0 count as missing.
\<close>

definition POST_local :: "ChatRequest \<Rightarrow> outbound" where
  "POST_local r =
     (let allMessages =
            (case system_prompt r of
               None \<Rightarrow> req_messages r
             | Some sp \<Rightarrow>
                 if sp \<noteq> [] then \<lparr>msg_role = ASystem, msg_content = sp\<rparr> # req_messages r
                 else req_messages r)
      in \<lparr>url = ''http://localhost:11434/api/chat'',
          out_model = (case model r of None \<Rightarrow> ''pirate-bot'' | Some m \<Rightarrow> if m \<noteq> [] then m else ''pirate-bot''),
          out_messages = allMessages,
          out_stream = True,
          out_temperature = (case temperature r of None \<Rightarrow> 0.8 | Some t \<Rightarrow> if t \<noteq> 0 then t else 0.8)\<rparr>)"

section \<open>What the specification says, and example inputs\<close>

subsection \<open>Reference definitions\<close>

text \<open>The turn that a narrowed history entry becomes: user stays user, assistant becomes model.\<close>

definition turn_of :: "Msg \<Rightarrow> turn" where
  "turn_of m = \<lparr>speaker = (case role m of User \<Rightarrow> GUser | Assistant \<Rightarrow> GModel), parts = [content m]\<rparr>"

text \<open>
  A history entry as the specification sanitizes it: the role is user unless it is exactly
  the string \<^verbatim>\<open>assistant\<close>; the content is the entry's content as a string, the empty
  string when the entry has none.
\<close>

definition spec_sanitize :: "json \<Rightarrow> Msg" where
  "spec_sanitize m =
     \<lparr>role = (if get_prop m ''role'' = Some (JStr ''assistant'') then Assistant else User),
      content = (case get_prop m ''content'' of None \<Rightarrow> [] | Some JNull \<Rightarrow> [] | Some v \<Rightarrow> to_str v)\<rparr>"

definition blank :: "Msg \<Rightarrow> bool" where
  "blank m = (trim (content m) = [])"

text \<open>
  The reply as the specification words it: the text of the first part of the first
  candidate, and three dots when any level on the way to it is missing.
\<close>

fun spec_reply :: "gen_result \<Rightarrow> string" where
  "spec_reply (Result (Some (Response (Some (Candidate (Some (Content (Some (Part (Some t) # ps)))) # cs))))) = t"
| "spec_reply _ = ''...''"

text \<open>The records of the event stream.\<close>

definition token_record :: "string \<Rightarrow> string" where
  \<open>token_record t = ''data: {"token":'' @ quote t @ ''}\<newline>\<newline>''\<close>

definition done_record :: string where
  "done_record = ''event: done\<newline>data: [DONE]\<newline>\<newline>''"

definition error_record :: "string \<Rightarrow> string" where
  \<open>error_record m = ''event: error\<newline>data: {"error":'' @ quote m @ ''}\<newline>\<newline>''\<close>

text \<open>The fragments that arrive before the backend stream ends or fails, and its failure if any.\<close>

fun arrived :: "step list \<Rightarrow> string list" where
  "arrived [] = []"
| "arrived (Throw e # rest) = []"
| "arrived (Text t # rest) = t # arrived rest"

fun failure :: "step list \<Rightarrow> thrown option" where
  "failure [] = None"
| "failure (Throw e # rest) = Some e"
| "failure (Text t # rest) = failure rest"

definition terminal_record :: "step list \<Rightarrow> string" where
  "terminal_record stream =
     (case failure stream of
        None \<Rightarrow> done_record
      | Some e \<Rightarrow> error_record (message_or e ''stream error''))"

text \<open>
  The token fragment that a line of the event stream carries for the page, if any: the
  line, trimmed, starts with \<^verbatim>\<open>data: \<close>, the rest is not the sentinel, parses to an object
  and has a truthy \<^verbatim>\<open>token\<close> that converts to a string.
\<close>

definition line_token :: "(string \<Rightarrow> json option) \<Rightarrow> string \<Rightarrow> string option" where
  "line_token parse line =
     (let t = trim line in
      if take 6 t = ''data: '' \<and> drop 6 t \<noteq> ''[DONE]'' then
        (case parse (drop 6 t) of
           Some (JObj kvs) \<Rightarrow>
             (case map_of kvs ''token'' of
                Some token \<Rightarrow> if truthy token \<and> \<not> unprintable token then Some (to_str token) else None
              | None \<Rightarrow> None)
         | _ \<Rightarrow> None)
      else None)"

text \<open>
  The fragments that the page finds, taking the lines of each read by themselves, and the
  fragments that the lines of the whole body carry. They differ when a read ends inside a
  line.
\<close>

definition received_tokens :: "(string \<Rightarrow> json option) \<Rightarrow> string list \<Rightarrow> string list" where
  "received_tokens parse chunks =
     List.map_filter (line_token parse) (concat (map split_lines chunks))"

definition body_tokens :: "(string \<Rightarrow> json option) \<Rightarrow> string list \<Rightarrow> string list" where
  "body_tokens parse chunks = List.map_filter (line_token parse) (split_lines (concat chunks))"




text \<open>
  A body that the handlers coerce without a throw: its history is absent, null or an array,
  and neither the prompt nor the content of a history entry is unprintable.
\<close>

definition coercible :: "json \<Rightarrow> bool" where
  "coercible body =
     (\<not> unprintable (nullish (get_prop body ''prompt'') (JStr []))
      \<and> (case nullish (get_prop body ''history'') (JArr []) of
           JArr ms \<Rightarrow> list_all (\<lambda>m. \<not> unprintable (nullish (get_prop m ''content'') (JStr []))) ms
         | _ \<Rightarrow> False))"

definition status_of :: "response \<Rightarrow> nat" where
  "status_of r =
     (case r of JsonResponse st v \<Rightarrow> st | TextResponse st t \<Rightarrow> st | StreamResponse hs chunks \<Rightarrow> 200)"

text \<open>A submission goes through: the trimmed input is not empty and no request is in flight.\<close>

definition submits :: "ui \<Rightarrow> bool" where
  "submits s = (trim (input s) \<noteq> [] \<and> \<not> isLoading s)"

text \<open>The endpoint call of a submission rejects or answers with a non-success status.\<close>

definition call_fails :: "net \<Rightarrow> ui \<Rightarrow> bool" where
  "call_fails n s =
     (let payload = buildPayload (messages s) (trim (input s)) in
      if useStreaming s
      then (case fetch_stream n payload of StreamRejects e \<Rightarrow> True | StreamFetched ok body \<Rightarrow> \<not> ok)
      else (case fetch_chat n payload of ChatRejects e \<Rightarrow> True | ChatResponse ok body \<Rightarrow> \<not> ok))"

text \<open>The stream request of a submission has a non-success status or no body.\<close>

definition stream_request_fails :: "net \<Rightarrow> ui \<Rightarrow> bool" where
  "stream_request_fails n s =
     (case fetch_stream n (buildPayload (messages s) (trim (input s))) of
        StreamRejects e \<Rightarrow> False
      | StreamFetched ok body \<Rightarrow> \<not> ok \<or> body = None)"

definition placeholder :: Msg where
  "placeholder = \<lparr>role = Assistant, content = []\<rparr>"

subsection \<open>Example inputs\<close>

text \<open>
  A history with a role outside the two valid ones, a blank entry and an assistant entry;
  no prompt field.
\<close>

definition example_body :: json where
  "example_body =
     JObj [(''history'',
            JArr [JObj [(''role'', JStr ''bogus''), (''content'', JStr ''hi'')],
                  JObj [(''role'', JStr ''user''), (''content'', JStr ''   '')],
                  JObj [(''role'', JStr ''assistant''), (''content'', JStr ''Hello there'')]])]"

text \<open>A body of the wrong types throughout, and one whose history is a number.\<close>

definition lenient_body :: json where
  "lenient_body =
     JObj [(''history'',
            JArr [JNull, JNum ''5'',
                  JObj [(''role'', JNum ''7''), (''content'', JArr [JNum ''1'', JNum ''2''])]]),
           (''prompt'', JObj [(''a'', JNum ''1'')])]"

definition number_history_body :: json where
  "number_history_body = JObj [(''history'', JNum ''5''), (''prompt'', JStr ''hi'')]"

definition example_result :: gen_result where
  "example_result =
     Result (Some (Response (Some [Candidate (Some (Content (Some [Part (Some ''Hello there'')])))])))"

definition example_backend :: "turn list \<Rightarrow> thrown + gen_result" where
  "example_backend contents = Inr example_result"

definition example_stream :: "turn list \<Rightarrow> thrown + step list" where
  "example_stream contents = Inr [Text ''Hel'', Text ''lo'']"

text \<open>A request whose body is not JSON, by the message of the SyntaxError.\<close>

definition unparseable :: "thrown + json" where
  "unparseable = Inl (Thrown (Some ''Unexpected end of JSON input''))"

text \<open>
  \<^verbatim>\<open>JSON.parse\<close> on the three payloads of the streaming example, which asks for no other.
\<close>

definition example_parse :: "string \<Rightarrow> json option" where
  \<open>example_parse s =
     map_of [(''{"token":"A"}'', JObj [(''token'', JStr ''A'')]),
             (''{"token":"B"}'', JObj [(''token'', JStr ''B'')]),
             (''{"token":"C"}'', JObj [(''token'', JStr ''C'')])] s\<close>



definition split_chunks :: "string list" where
  \<open>split_chunks = [''data: {"tok'', ''en":"A"}\<newline>\<newline>'']\<close>



definition split_net :: net where
  "split_net =
     \<lparr>fetch_chat = (\<lambda>p. ChatResponse True (Inr (Some ''Hello there''))),
      fetch_stream = (\<lambda>p. StreamFetched True (Some (split_chunks, Done))),
      JSON_parse = example_parse,
      renders = (\<lambda>k. True)\<rparr>"

definition failing_net :: net where
  "failing_net =
     \<lparr>fetch_chat = (\<lambda>p. ChatResponse False (Inr None)),
      fetch_stream = (\<lambda>p. StreamFetched False None),
      JSON_parse = example_parse,
      renders = (\<lambda>k. True)\<rparr>"

definition example_ui :: "bool \<Rightarrow> ui" where
  "example_ui streaming =
     \<lparr>messages = [\<lparr>role = Assistant, content = ''Hi!''\<rparr>],
      input = ''  what is AI?  '',
      useStreaming = streaming,
      isLoading = False\<rparr>"

definition example_request :: "string option \<Rightarrow> ChatRequest" where
  "example_request sp =
     \<lparr>req_messages = [\<lparr>msg_role = AUser, msg_content = ''ahoy''\<rparr>],
      system_prompt = sp,
      model = None,
      temperature = None\<rparr>"

definition no_text_backend :: "turn list \<Rightarrow> thrown + gen_result" where
  "no_text_backend contents = Inr (Result (Some (Response (Some []))))"

section \<open>Properties\<close>

subsection \<open>The contents sent to the backend\<close>

lemma push_history_map: "push_history ms cs = cs @ map turn_of ms"
  by (induction ms arbitrary: cs) (simp_all add: turn_of_def split: Role.splits)

lemma build_contents_eq:
  "build_contents h p =
     \<lparr>speaker = GUser, parts = [SYSTEM_PREAMBLE]\<rparr> # map turn_of h @ [\<lparr>speaker = GUser, parts = [p]\<rparr>]"
  by (simp add: build_contents_def push_history_map)

lemma prepare_Inr:
  assumes "js_String (nullish (get_prop body ''prompt'') (JStr [])) = Inr p"
      and "narrow_history (nullish (get_prop body ''history'') (JArr [])) = Inr h"
  shows "prepare body = Inr (build_contents h p)"
  using assms by (simp add: prepare_def)

lemma POST_chat_calls:
  "\<not> missing_key key \<Longrightarrow> prepare body = Inr contents \<Longrightarrow>
     snd (POST_chat key (Inr body) gc) = [contents]"
  by (simp add: POST_chat_def split: sum.splits)

lemma POST_stream_calls:
  "\<not> missing_key key \<Longrightarrow> prepare body = Inr contents \<Longrightarrow>
     snd (POST_stream key (Inr body) gs) = [contents]"
  by (simp add: POST_stream_def split: sum.splits)

lemma example_key: "\<not> missing_key (Some ''k'')"
  by (simp add: missing_key_def)

lemma example_history:
  "narrow_history (nullish (get_prop example_body ''history'') (JArr [])) =
     Inr [\<lparr>role = User, content = ''hi''\<rparr>, \<lparr>role = Assistant, content = ''Hello there''\<rparr>]"
  by (simp add: example_body_def narrow_history_def narrow_entry_def js_String_def trim_def is_ws_def)

lemma example_prompt: "js_String (nullish (get_prop example_body ''prompt'') (JStr [])) = Inr []"
  by (simp add: example_body_def js_String_def)

text \<open>
  C1. With the credential present, whenever the history narrows to \<open>h\<close> and the prompt
  converts to the string \<open>p\<close>, each of the two handlers makes one backend call, and its contents
  are: the persona instruction as a user turn, then the entries of \<open>h\<close> in order (user as
  user, assistant as model), then one user turn holding \<open>p\<close>. The last turn is there
  whatever \<open>p\<close> is; when the body has no prompt, or an empty one, its text is empty.
\<close>

theorem contents_persona_history_prompt:
  assumes "\<not> missing_key key"
      and "narrow_history (nullish (get_prop body ''history'') (JArr [])) = Inr h"
      and "js_String (nullish (get_prop body ''prompt'') (JStr [])) = Inr p"
  shows "snd (POST_chat key (Inr body) gc) =
           [\<lparr>speaker = GUser, parts = [SYSTEM_PREAMBLE]\<rparr> # map turn_of h
              @ [\<lparr>speaker = GUser, parts = [p]\<rparr>]]
       \<and> snd (POST_stream key (Inr body) gs) =
           [\<lparr>speaker = GUser, parts = [SYSTEM_PREAMBLE]\<rparr> # map turn_of h
              @ [\<lparr>speaker = GUser, parts = [p]\<rparr>]]
       \<and> (get_prop body ''prompt'' = None \<or> get_prop body ''prompt'' = Some (JStr [])
            \<longrightarrow> p = [])"
proof -
  have prep: "prepare body = Inr (build_contents h p)"
    using assms(2,3) by (rule prepare_Inr[rotated])
  have empty: "get_prop body ''prompt'' = None \<or> get_prop body ''prompt'' = Some (JStr [])
      \<longrightarrow> p = []"
    using assms(3) by (auto simp: js_String_def)
  show ?thesis
    using POST_chat_calls[OF assms(1) prep] POST_stream_calls[OF assms(1) prep] empty
    by (simp add: build_contents_eq)
qed

theorem contents_persona_history_prompt_witness:
  "snd (POST_chat (Some ''k'') (Inr example_body) example_backend) =
     [[\<lparr>speaker = GUser, parts = [SYSTEM_PREAMBLE]\<rparr>,
       \<lparr>speaker = GUser, parts = [''hi'']\<rparr>,
       \<lparr>speaker = GModel, parts = [''Hello there'']\<rparr>,
       \<lparr>speaker = GUser, parts = ['''']\<rparr>]]
   \<and> snd (POST_stream (Some ''k'') (Inr example_body) example_stream) =
     [[\<lparr>speaker = GUser, parts = [SYSTEM_PREAMBLE]\<rparr>,
       \<lparr>speaker = GUser, parts = [''hi'']\<rparr>,
       \<lparr>speaker = GModel, parts = [''Hello there'']\<rparr>,
       \<lparr>speaker = GUser, parts = ['''']\<rparr>]]"
  using contents_persona_history_prompt[OF example_key example_history example_prompt,
      of example_backend example_stream]
  by (simp add: turn_of_def)

subsection \<open>Sanitizing the history\<close>

lemma narrow_entry_sanitized: "narrow_entry m = Inr x \<Longrightarrow> x = spec_sanitize m"
  by (cases "get_prop m ''content''"; cases "the (get_prop m ''content'')")
     (auto simp: narrow_entry_def spec_sanitize_def js_String_def Let_def split: if_splits sum.splits)

lemma map_entries_sanitized: "map_entries ms = Inr xs \<Longrightarrow> xs = map spec_sanitize ms"
  by (induction ms arbitrary: xs) (auto split: sum.splits dest: narrow_entry_sanitized)

lemma narrow_history_sanitized:
  "narrow_history (JArr ms) = Inr h \<Longrightarrow> h = filter (\<lambda>m. \<not> blank m) (map spec_sanitize ms)"
  by (auto simp: narrow_history_def blank_def split: sum.splits dest: map_entries_sanitized)

text \<open>
  C2. Whatever array of entries the history is, the turns of the outgoing contents between
  the persona turn and the prompt turn are those of the entries sanitized as specified (role
  user unless exactly the string assistant, content as a string, empty when absent), without
  the entries whose trimmed content is empty, in order. A blank entry contributes no turn.
\<close>

theorem history_sanitized:
  assumes "\<not> missing_key key"
      and "get_prop body ''history'' = Some (JArr ms)"
      and "prepare body = Inr contents"
  shows "snd (POST_chat key (Inr body) gc) = [contents]
       \<and> snd (POST_stream key (Inr body) gs) = [contents]
       \<and> butlast (tl contents) = map turn_of (filter (\<lambda>m. \<not> blank m) (map spec_sanitize ms))"
proof -
  from assms(2,3) obtain h p where h: "narrow_history (JArr ms) = Inr h"
    and c: "contents = build_contents h p"
    by (auto simp: prepare_def split: sum.splits)
  have "butlast (tl contents) = map turn_of h"
    by (simp add: c build_contents_eq)
  with narrow_history_sanitized[OF h] POST_chat_calls[OF assms(1,3)] POST_stream_calls[OF assms(1,3)]
  show ?thesis by simp
qed

lemma example_prepare:
  "prepare example_body =
     Inr [\<lparr>speaker = GUser, parts = [SYSTEM_PREAMBLE]\<rparr>,
          \<lparr>speaker = GUser, parts = [''hi'']\<rparr>,
          \<lparr>speaker = GModel, parts = [''Hello there'']\<rparr>,
          \<lparr>speaker = GUser, parts = ['''']\<rparr>]"
  by (simp add: prepare_Inr[OF example_prompt example_history] build_contents_eq turn_of_def)

theorem history_sanitized_witness:
  "map spec_sanitize
     [JObj [(''role'', JStr ''bogus''), (''content'', JStr ''hi'')],
      JObj [(''role'', JStr ''user''), (''content'', JStr ''   '')],
      JObj [(''role'', JStr ''assistant''), (''content'', JStr ''Hello there'')]]
     = [\<lparr>role = User, content = ''hi''\<rparr>, \<lparr>role = User, content = ''   ''\<rparr>,
        \<lparr>role = Assistant, content = ''Hello there''\<rparr>]
   \<and> blank \<lparr>role = User, content = ''   ''\<rparr>
   \<and> butlast (tl [\<lparr>speaker = GUser, parts = [SYSTEM_PREAMBLE]\<rparr>,
          \<lparr>speaker = GUser, parts = [''hi'']\<rparr>,
          \<lparr>speaker = GModel, parts = [''Hello there'']\<rparr>,
          \<lparr>speaker = GUser, parts = ['''']\<rparr>])
     = [\<lparr>speaker = GUser, parts = [''hi'']\<rparr>, \<lparr>speaker = GModel, parts = [''Hello there'']\<rparr>]
   \<and> snd (POST_chat (Some ''k'') (Inr example_body) example_backend) =
       [[\<lparr>speaker = GUser, parts = [SYSTEM_PREAMBLE]\<rparr>,
          \<lparr>speaker = GUser, parts = [''hi'']\<rparr>,
          \<lparr>speaker = GModel, parts = [''Hello there'']\<rparr>,
          \<lparr>speaker = GUser, parts = ['''']\<rparr>]]"
proof -
  have h: "get_prop example_body ''history'' = Some (JArr
     [JObj [(''role'', JStr ''bogus''), (''content'', JStr ''hi'')],
      JObj [(''role'', JStr ''user''), (''content'', JStr ''   '')],
      JObj [(''role'', JStr ''assistant''), (''content'', JStr ''Hello there'')]])"
    by (simp add: example_body_def)
  show ?thesis
    using history_sanitized[OF example_key h example_prepare, of example_backend example_stream]
    by (simp add: spec_sanitize_def blank_def trim_def is_ws_def)
qed

subsection \<open>The event stream\<close>

lemma send_token_record: "send c (stringify_token t) = enqueue c (token_record t)"
  by (simp add: send_def stringify_token_def token_record_def)

lemma for_await_queue:
  "for_await stream c =
     (failure stream,
      c\<lparr>queue := queue c @ map token_record (filter (\<lambda>t. t \<noteq> []) (arrived stream))\<rparr>)"
proof (induction stream c rule: for_await.induct)
  case (1 c)
  then show ?case by simp
next
  case (2 e rest c)
  then show ?case by simp
next
  case (3 t rest c)
  then show ?case by (simp add: send_token_record enqueue_def)
qed

lemma token_not_terminal:
  "token_record t \<noteq> done_record" "token_record t \<noteq> error_record m"
  "done_record \<noteq> token_record t" "error_record m \<noteq> token_record t"
  by (simp_all add: token_record_def done_record_def error_record_def)

text \<open>
  C3. The stream body enqueues one token record for each fragment with text that arrives
  before the backend stream ends or fails, in order, and none for a fragment without text;
  then exactly one terminal record, the done record after a normal end and the error record
  with the failure's message (or \<^verbatim>\<open>stream error\<close>) after a failure; then it closes. No token
  record is a terminal record, so nothing follows the terminal one.
\<close>

theorem stream_records:
  "start stream \<lparr>queue = [], closed = False\<rparr> =
     \<lparr>queue = map token_record (filter (\<lambda>t. t \<noteq> []) (arrived stream)) @ [terminal_record stream],
      closed = True\<rparr>
   \<and> terminal_record stream \<notin> set (map token_record (filter (\<lambda>t. t \<noteq> []) (arrived stream)))
   \<and> (failure stream = None \<longrightarrow> terminal_record stream = done_record)
   \<and> (\<forall>e. failure stream = Some e \<longrightarrow>
         terminal_record stream = error_record (message_or e ''stream error''))"
proof -
  have q: "start stream \<lparr>queue = [], closed = False\<rparr> =
     \<lparr>queue = map token_record (filter (\<lambda>t. t \<noteq> []) (arrived stream)) @ [terminal_record stream],
      closed = True\<rparr>"
    by (cases "failure stream")
       (simp_all add: start_def for_await_queue terminal_record_def enqueue_def close_def
          done_record_def error_record_def stringify_error_def)
  have t: "terminal_record stream \<notin> set (map token_record (filter (\<lambda>t. t \<noteq> []) (arrived stream)))"
    using token_not_terminal by (cases "failure stream") (auto simp: terminal_record_def)
  show ?thesis using q t by (simp add: terminal_record_def)
qed

theorem stream_records_witness:
  \<open>fst (POST_stream (Some ''k'') (Inr example_body) example_stream) =
     StreamResponse stream_headers
       [''data: {"token":"Hel"}\<newline>\<newline>'', ''data: {"token":"lo"}\<newline>\<newline>'',
        ''event: done\<newline>data: [DONE]\<newline>\<newline>'']
   \<and> queue (start [Text ''Hel'', Text '''', Text ''lo''] \<lparr>queue = [], closed = False\<rparr>) =
     [''data: {"token":"Hel"}\<newline>\<newline>'', ''data: {"token":"lo"}\<newline>\<newline>'',
      ''event: done\<newline>data: [DONE]\<newline>\<newline>'']
   \<and> queue (start [Text ''Hel'', Throw (Thrown None), Text ''lo''] \<lparr>queue = [], closed = False\<rparr>) =
     [''data: {"token":"Hel"}\<newline>\<newline>'',
      ''event: error\<newline>data: {"error":"stream error"}\<newline>\<newline>'']\<close>
  using stream_records[of "[Text ''Hel'', Text ''lo'']"]
        stream_records[of "[Text ''Hel'', Text '''', Text ''lo'']"]
        stream_records[of "[Text ''Hel'', Throw (Thrown None), Text ''lo'']"]
  by (simp add: POST_stream_def example_key example_prepare example_stream_def
        terminal_record_def token_record_def done_record_def error_record_def
        message_or_def quote_def quote_char_def)

subsection \<open>The missing credential\<close>

text \<open>
  C4, as stated, fails on a request whose body is not JSON: the body is parsed before the
  credential is looked at, and the answer carries the parser's message.
\<close>

theorem missing_key_unparseable_counterexample:
  "missing_key None
   \<and> fst (POST_chat None unparseable example_backend) =
       JsonResponse 500 (JObj [(''error'', JStr ''Unexpected end of JSON input'')])
   \<and> fst (POST_chat None unparseable example_backend) \<noteq>
       JsonResponse 500 (JObj [(''error'', JStr ''Missing GOOGLE_API_KEY'')])
   \<and> fst (POST_stream None unparseable example_stream) = TextResponse 500 ''Unexpected end of JSON input''
   \<and> fst (POST_stream None unparseable example_stream) \<noteq> TextResponse 500 ''Missing GOOGLE_API_KEY''"
  by (simp add: missing_key_def POST_chat_def POST_stream_def unparseable_def catch_json_def
        catch_text_def message_or_def)

text \<open>
  C4, amended. Without the credential, every request gets status 500 from both handlers and
  no backend call is made; when the body parses as JSON the one-shot handler answers with
  the JSON body \<^verbatim>\<open>{ error: "Missing GOOGLE_API_KEY" }\<close> and the streaming handler with the
  plain text \<^verbatim>\<open>Missing GOOGLE_API_KEY\<close>.
\<close>

theorem missing_key_response:
  assumes "missing_key key"
  shows "POST_chat key (Inr body) gc =
           (JsonResponse 500 (JObj [(''error'', JStr ''Missing GOOGLE_API_KEY'')]), [])
       \<and> POST_stream key (Inr body) gs = (TextResponse 500 ''Missing GOOGLE_API_KEY'', [])
       \<and> status_of (fst (POST_chat key req gc)) = 500 \<and> snd (POST_chat key req gc) = []
       \<and> status_of (fst (POST_stream key req gs)) = 500 \<and> snd (POST_stream key req gs) = []"
  using assms
  by (cases req)
     (simp_all add: POST_chat_def POST_stream_def status_of_def catch_json_def catch_text_def)

theorem missing_key_response_witness:
  "missing_key None
   \<and> POST_chat None (Inr example_body) example_backend =
        (JsonResponse 500 (JObj [(''error'', JStr ''Missing GOOGLE_API_KEY'')]), [])
   \<and> POST_stream None (Inr example_body) example_stream =
        (TextResponse 500 ''Missing GOOGLE_API_KEY'', [])
   \<and> status_of (fst (POST_chat None unparseable example_backend)) = 500
   \<and> snd (POST_chat None unparseable example_backend) = []"
proof -
  have m: "missing_key None" by (simp add: missing_key_def)
  show ?thesis
    using m missing_key_response[OF m, of example_body example_backend example_stream unparseable]
    by simp
qed

subsection \<open>Malformed bodies\<close>

text \<open>
  C5, as stated, fails on a body whose history is a number: \<^verbatim>\<open>historyUnsafe.map\<close> throws
  before the backend call, and both handlers answer 500 without calling the backend.
\<close>

theorem malformed_history_counterexample:
  "\<not> missing_key (Some ''k'')
   \<and> POST_chat (Some ''k'') (Inr number_history_body) example_backend =
       (JsonResponse 500 (JObj [(''error'', JStr ''historyUnsafe.map is not a function'')]), [])
   \<and> POST_stream (Some ''k'') (Inr number_history_body) example_stream =
       (TextResponse 500 ''historyUnsafe.map is not a function'', [])"
  by (simp add: missing_key_def POST_chat_def POST_stream_def number_history_body_def prepare_def
        js_String_def narrow_history_def catch_json_def catch_text_def message_or_def)

lemma narrow_entry_total:
  "\<not> unprintable (nullish (get_prop m ''content'') (JStr [])) \<Longrightarrow> \<exists>x. narrow_entry m = Inr x"
  by (simp add: narrow_entry_def js_String_def Let_def)

lemma map_entries_total:
  "list_all (\<lambda>m. \<not> unprintable (nullish (get_prop m ''content'') (JStr []))) ms \<Longrightarrow>
     \<exists>xs. map_entries ms = Inr xs"
proof (induction ms)
  case Nil
  then show ?case by simp
next
  case (Cons m ms)
  then obtain x xs where "narrow_entry m = Inr x" "map_entries ms = Inr xs"
    using narrow_entry_total by fastforce
  then show ?case by simp
qed

lemma coercible_prepare: "coercible body \<Longrightarrow> \<exists>contents. prepare body = Inr contents"
proof -
  assume c: "coercible body"
  then obtain ms where h: "nullish (get_prop body ''history'') (JArr []) = JArr ms"
    and ok: "list_all (\<lambda>m. \<not> unprintable (nullish (get_prop m ''content'') (JStr []))) ms"
    by (auto simp: coercible_def split: json.splits)
  from map_entries_total[OF ok] obtain xs where "map_entries ms = Inr xs" ..
  with c h show ?thesis
    by (simp add: coercible_def prepare_def js_String_def narrow_history_def)
qed

text \<open>
  C5, amended. With the credential present, a parsed body whose history is absent, null or
  an array, and whose prompt and entry contents convert to strings, is never rejected:
  whatever else is missing or of the wrong type, nothing throws before the backend call, and
  each handler calls the backend once with the contents built from the coerced fields.
\<close>

theorem coercible_reaches_backend:
  assumes "\<not> missing_key key" and "coercible body"
  shows "\<exists>contents. prepare body = Inr contents
           \<and> snd (POST_chat key (Inr body) gc) = [contents]
           \<and> snd (POST_stream key (Inr body) gs) = [contents]"
proof -
  from coercible_prepare[OF assms(2)] obtain contents where p: "prepare body = Inr contents" ..
  with POST_chat_calls[OF assms(1) p] POST_stream_calls[OF assms(1) p] show ?thesis by simp
qed

lemma lenient_prepare:
  "prepare lenient_body =
     Inr [\<lparr>speaker = GUser, parts = [SYSTEM_PREAMBLE]\<rparr>,
          \<lparr>speaker = GUser, parts = [''1,2'']\<rparr>,
          \<lparr>speaker = GUser, parts = [''[object Object]'']\<rparr>]"
  by (simp add: lenient_body_def prepare_def js_String_def narrow_history_def narrow_entry_def
        build_contents_eq turn_of_def trim_def is_ws_def)

theorem coercible_reaches_backend_witness:
  "coercible lenient_body
   \<and> snd (POST_chat (Some ''k'') (Inr lenient_body) example_backend) =
       [[\<lparr>speaker = GUser, parts = [SYSTEM_PREAMBLE]\<rparr>,
         \<lparr>speaker = GUser, parts = [''1,2'']\<rparr>,
         \<lparr>speaker = GUser, parts = [''[object Object]'']\<rparr>]]
   \<and> snd (POST_stream (Some ''k'') (Inr lenient_body) example_stream) =
       [[\<lparr>speaker = GUser, parts = [SYSTEM_PREAMBLE]\<rparr>,
         \<lparr>speaker = GUser, parts = [''1,2'']\<rparr>,
         \<lparr>speaker = GUser, parts = [''[object Object]'']\<rparr>]]"
proof -
  have c: "coercible lenient_body"
    by (simp add: coercible_def lenient_body_def)
  show ?thesis
    using c coercible_reaches_backend[OF example_key c, of example_backend example_stream]
    by (simp add: lenient_prepare)
qed

subsection \<open>The reply\<close>

lemma first_text_reply: "(case first_text r of None \<Rightarrow> ''...'' | Some t \<Rightarrow> t) = spec_reply r"
  by (induction r rule: spec_reply.induct) (simp_all add: first_text_def)

text \<open>
  C6. When the backend answers the one-shot call, the handler responds with status 200 and
  the body \<^verbatim>\<open>{ reply: t }\<close>, where \<open>t\<close> is the text of the first part of the first candidate,
  and three dots when the candidates, the content, the parts or the text are missing.
\<close>

theorem reply_first_text:
  assumes "\<not> missing_key key" and "prepare body = Inr contents" and "gc contents = Inr result"
  shows "fst (POST_chat key (Inr body) gc) = JsonResponse 200 (JObj [(''reply'', JStr (spec_reply result))])"
  using assms by (simp add: POST_chat_def first_text_reply)

theorem reply_first_text_witness:
  "fst (POST_chat (Some ''k'') (Inr example_body) example_backend) =
     JsonResponse 200 (JObj [(''reply'', JStr ''Hello there'')])
   \<and> fst (POST_chat (Some ''k'') (Inr example_body) no_text_backend)
       = JsonResponse 200 (JObj [(''reply'', JStr ''...'')])"
proof -
  have e: "example_backend c = Inr example_result" for c
    by (simp add: example_backend_def)
  have n: "no_text_backend c = Inr (Result (Some (Response (Some []))))" for c
    by (simp add: no_text_backend_def)
  show ?thesis
    using reply_first_text[OF example_key example_prepare e]
      reply_first_text[OF example_key example_prepare n]
    by (simp add: example_result_def)
qed

subsection \<open>Streaming into the last message\<close>

lemma on_line_token:
  "on_line parse line st =
     (case line_token parse line of
        None \<Rightarrow> st
      | Some t \<Rightarrow> st\<lparr>assistantText := assistantText st @ t, pending := pending st @ [update_last]\<rparr>)"
  by (auto simp: on_line_def line_token_def js_String_def Let_def
        split: option.splits json.splits)





















text \<open>
  A record that two reads share is lost to the page, which takes the lines of each read by
  themselves: the body carries the fragment A, and the message stays empty.
\<close>

lemma split_record_is_dropped:
  "body_tokens example_parse split_chunks = [''A'']
   \<and> received_tokens example_parse split_chunks = []
   \<and> last (snd (sendStreaming split_net [] ''hi'' [\<lparr>role = User, content = ''hi''\<rparr>])) =
       [\<lparr>role = User, content = ''hi''\<rparr>, \<lparr>role = Assistant, content = []\<rparr>]"
  by (simp add: body_tokens_def received_tokens_def split_chunks_def split_net_def
        sendStreaming_def on_line_token line_token_def example_parse_def trim_def is_ws_def
        List.map_filter_simps render_def Let_def)



subsection \<open>Failed submissions\<close>

lemma example_submits: "submits (example_ui b)"
  by (simp add: submits_def example_ui_def trim_def is_ws_def)

lemma example_trim: "trim (input (example_ui b)) = ''what is AI?''"
  by (simp add: example_ui_def trim_def is_ws_def)

text \<open>
  C8. When a submission goes through and its endpoint call rejects or has a non-success
  status, the messages end with the new user message, in streaming mode the placeholder that
  was appended before the call, and the fallback message: exactly one message with the fixed
  fallback text is appended, and \<^verbatim>\<open>isLoading\<close> is false afterwards, in both modes.
\<close>

theorem failure_appends_fallback:
  assumes "submits s" and "call_fails n s"
  shows "messages (onSend n s) =
           messages s @ [\<lparr>role = User, content = trim (input s)\<rparr>]
             @ (if useStreaming s then [placeholder] else []) @ [fallback]
       \<and> length (filter (\<lambda>m. m = fallback) (drop (length (messages s)) (messages (onSend n s)))) = 1
       \<and> isLoading (onSend n s) = False"
  using assms
  by (auto simp: submits_def call_fails_def onSend_def sendStreaming_def sendNonStreaming_def
        placeholder_def fallback_def Let_def split: stream_fetch.splits chat_fetch.splits)

theorem failure_appends_fallback_witness:
  "messages (onSend failing_net (example_ui False)) =
     [\<lparr>role = Assistant, content = ''Hi!''\<rparr>,
      \<lparr>role = User, content = ''what is AI?''\<rparr>,
      \<lparr>role = Assistant, content = ''Sorry, something went wrong. Please try again in a moment.''\<rparr>]
   \<and> isLoading (onSend failing_net (example_ui False)) = False
   \<and> messages (onSend failing_net (example_ui True)) =
     [\<lparr>role = Assistant, content = ''Hi!''\<rparr>,
      \<lparr>role = User, content = ''what is AI?''\<rparr>,
      \<lparr>role = Assistant, content = []\<rparr>,
      \<lparr>role = Assistant, content = ''Sorry, something went wrong. Please try again in a moment.''\<rparr>]
   \<and> isLoading (onSend failing_net (example_ui True)) = False"
proof -
  have f: "call_fails failing_net (example_ui b)" for b
    by (simp add: call_fails_def failing_net_def example_ui_def)
  show ?thesis
    using failure_appends_fallback[OF example_submits f, of False]
      failure_appends_fallback[OF example_submits f, of True]
    by (simp add: example_trim fallback_def placeholder_def) (simp add: example_ui_def)
qed

text \<open>
  C10. In streaming mode, when the stream request has a non-success status or no body, the
  placeholder appended before the fetch stays: the submission leaves the user message, the
  empty assistant placeholder (shown as \<^verbatim>\<open>Thinking...\<close>) and, right after it, the fallback
  message.
\<close>

theorem failed_stream_leaves_placeholder:
  assumes "submits s" and "useStreaming s" and "stream_request_fails n s"
  shows "messages (onSend n s) =
           messages s @ [\<lparr>role = User, content = trim (input s)\<rparr>, placeholder, fallback]
       \<and> role placeholder = Assistant \<and> content placeholder = []
       \<and> Bubble placeholder = ''Thinking...''
       \<and> role fallback = Assistant"
  using assms
  by (auto simp: submits_def stream_request_fails_def onSend_def sendStreaming_def
        placeholder_def fallback_def Bubble_def Let_def split: stream_fetch.splits)

theorem failed_stream_leaves_placeholder_witness:
  "messages (onSend failing_net (example_ui True)) =
     [\<lparr>role = Assistant, content = ''Hi!''\<rparr>,
      \<lparr>role = User, content = ''what is AI?''\<rparr>,
      \<lparr>role = Assistant, content = ''''\<rparr>,
      \<lparr>role = Assistant, content = ''Sorry, something went wrong. Please try again in a moment.''\<rparr>]"
proof -
  have u: "useStreaming (example_ui True)" by (simp add: example_ui_def)
  have f: "stream_request_fails failing_net (example_ui True)"
    by (simp add: stream_request_fails_def failing_net_def)
  show ?thesis
    using failed_stream_leaves_placeholder[OF example_submits u f]
    by (simp add: example_trim placeholder_def fallback_def) (simp add: example_ui_def)
qed

subsection \<open>The local-model request\<close>

text \<open>
  C9, as stated, fails on a request whose \<^verbatim>\<open>system_prompt\<close> is present and empty: the
  handler tests its truthiness, and no system message is prepended.
\<close>

theorem empty_system_prompt_counterexample:
  "system_prompt (example_request (Some [])) = Some []
   \<and> out_messages (POST_local (example_request (Some []))) = [\<lparr>msg_role = AUser, msg_content = ''ahoy''\<rparr>]
   \<and> out_messages (POST_local (example_request (Some []))) \<noteq>
       \<lparr>msg_role = ASystem, msg_content = []\<rparr> # req_messages (example_request (Some []))"
  by (simp add: POST_local_def example_request_def)

text \<open>
  C9, amended. The request goes to \<^verbatim>\<open>http://localhost:11434/api/chat\<close> with
  \<^verbatim>\<open>stream: true\<close>; a system message is prepended when \<^verbatim>\<open>system_prompt\<close> is present and
  not empty, and the messages are unchanged otherwise; the model is \<^verbatim>\<open>pirate-bot\<close> when
  absent or empty, and the temperature 0.8 when absent or 0.
\<close>

theorem local_request:
  "POST_local r =
     \<lparr>url = ''http://localhost:11434/api/chat'',
      out_model = (if model r = None \<or> model r = Some [] then ''pirate-bot'' else the (model r)),
      out_messages =
        (if system_prompt r = None \<or> system_prompt r = Some [] then req_messages r
         else \<lparr>msg_role = ASystem, msg_content = the (system_prompt r)\<rparr> # req_messages r),
      out_stream = True,
      out_temperature = (if temperature r = None \<or> temperature r = Some 0 then 0.8 else the (temperature r))\<rparr>"
  by (simp add: POST_local_def split: option.splits)

theorem local_request_witness:
  "POST_local (example_request (Some ''be a pirate'')) =
     \<lparr>url = ''http://localhost:11434/api/chat'',
      out_model = ''pirate-bot'',
      out_messages = [\<lparr>msg_role = ASystem, msg_content = ''be a pirate''\<rparr>,
                      \<lparr>msg_role = AUser, msg_content = ''ahoy''\<rparr>],
      out_stream = True,
      out_temperature = 0.8\<rparr>
   \<and> POST_local (example_request None) =
     \<lparr>url = ''http://localhost:11434/api/chat'',
      out_model = ''pirate-bot'',
      out_messages = [\<lparr>msg_role = AUser, msg_content = ''ahoy''\<rparr>],
      out_stream = True,
      out_temperature = 0.8\<rparr>"
  using local_request[of "example_request (Some ''be a pirate'')"]
        local_request[of "example_request None"]
  by (simp add: example_request_def)

end
